theory Spec2Isabelle
  imports Main "HOL-Library.Word"
begin

section \<open>Values shared by the generated queries\<close>

text \<open>
  \<^verbatim>\<open>uuid.UUID\<close> is an array of 16 bytes, so a value of it is never NULL; its zero value
  is \<open>0\<close>. \<^verbatim>\<open>json.RawMessage\<close> is a byte string. \<^verbatim>\<open>NOW()\<close> is the time of the
  statement, which every function below takes as an argument.
\<close>

type_synonym uuid = "128 word"
type_synonym RawMessage = string
type_synonym timestamp = nat

text \<open>
  What \<^verbatim>\<open>database/sql\<close> hands back besides a row: \<^verbatim>\<open>sql.ErrNoRows\<close> from
  \<^verbatim>\<open>Row.Scan\<close> when the statement returned no row, or the error of the statement.
\<close>

datatype db_error = ErrNoRows | StatementError string

text \<open>
  \<^verbatim>\<open>ExecContext\<close> and \<^verbatim>\<open>QueryRowContext\<close> of \<^verbatim>\<open>q.db\<close> can fail before the statement takes
  effect: the context of the call is cancelled or past its deadline, the connection is
  lost, the transaction is aborted. The methods on \<^verbatim>\<open>rule_instances\<close> take this as the
  argument \<open>failure\<close>: \<open>Some e\<close> when the call fails so with the error \<open>e\<close>, and
  \<open>None\<close> when the statement runs.
\<close>

type_synonym call_failure = "db_error option"

subsection \<open>SQL truth values\<close>

text \<open>
  A condition of a \<^verbatim>\<open>WHERE\<close> clause is TRUE, FALSE or NULL: \<open>None\<close> is NULL. A
  statement touches the rows whose condition is TRUE.
\<close>

type_synonym sql_bool = "bool option"

fun sql_not :: "sql_bool \<Rightarrow> sql_bool" where
  "sql_not None = None"
| "sql_not (Some b) = Some (\<not> b)"

fun sql_and :: "sql_bool \<Rightarrow> sql_bool \<Rightarrow> sql_bool" where
  "sql_and (Some False) _ = Some False"
| "sql_and _ (Some False) = Some False"
| "sql_and (Some True) (Some True) = Some True"
| "sql_and _ _ = None"

text \<open>\<^verbatim>\<open>a = b\<close> on two columns or parameters that are not NULL.\<close>

definition sql_eq :: "'a \<Rightarrow> 'a \<Rightarrow> sql_bool" where
  "sql_eq a b = Some (a = b)"

text \<open>
  An array parameter as the statement receives it. \<^verbatim>\<open>x = ANY(arr)\<close> is NULL for a
  NULL array; for an array (of elements that are not NULL) it is TRUE when some
  element equals \<open>x\<close> and FALSE otherwise, so FALSE for the empty array.
\<close>

datatype 'a sql_array = SqlNull | SqlArray "'a list"

fun eq_some_element :: "'a \<Rightarrow> 'a list \<Rightarrow> bool" where
  "eq_some_element x [] = False"
| "eq_some_element x (y # ys) = (if x = y then True else eq_some_element x ys)"

fun sql_eq_any :: "'a \<Rightarrow> 'a sql_array \<Rightarrow> sql_bool" where
  "sql_eq_any x SqlNull = None"
| "sql_eq_any x (SqlArray ys) = Some (eq_some_element x ys)"

text \<open>
  A Go slice is either \<^verbatim>\<open>nil\<close> or holds a (possibly empty) sequence of elements.
  \<^verbatim>\<open>pq.Array\<close> belongs to the driver library \<^verbatim>\<open>github.com/lib/pq\<close>, a dependency of the
  repository: for a slice type it has no special case for, such as
  \<^verbatim>\<open>[]uuid.UUID\<close>, its \<^verbatim>\<open>GenericArray.Value\<close> sends a \<^verbatim>\<open>nil\<close> slice as NULL, an
  empty slice as the empty array \<^verbatim>\<open>{}\<close>, and any other slice as the array of its
  elements.
\<close>

datatype 'a go_slice = GoNil | GoSlice "'a list"

fun elems :: "'a go_slice \<Rightarrow> 'a list" where
  "elems GoNil = []"
| "elems (GoSlice xs) = xs"

fun pq_Array :: "'a go_slice \<Rightarrow> 'a sql_array" where
  "pq_Array GoNil = SqlNull"
| "pq_Array (GoSlice xs) = SqlArray xs"

section \<open>The table \<^verbatim>\<open>rule_instances\<close> (rule\_instances.sql.go)\<close>

text \<open>
  A row has the nine columns every \<^verbatim>\<open>SELECT\<close> of the file lists. \<open>'e\<close> is the
  enumeration \<^verbatim>\<open>Entities\<close>, which the file uses and does not declare. The table is
  the list of its rows; the order of the list has no meaning.
\<close>

record 'e RuleInstance =
  ri_id :: uuid
  ri_profile_id :: uuid
  ri_rule_type_id :: uuid
  ri_name :: string
  ri_entity_type :: 'e
  ri_def :: RawMessage
  ri_params :: RawMessage
  ri_created_at :: timestamp
  ri_updated_at :: timestamp

subsection \<open>DeleteNonUpdatedRules\<close>

record 'e DeleteNonUpdatedRulesParams =
  del_ProfileID :: uuid
  del_EntityType :: 'e
  del_UpdatedIds :: "uuid go_slice"

text \<open>
  \<^verbatim>\<open>DELETE FROM rule_instances WHERE profile_id = $1 AND entity_type = $2
  AND NOT id = ANY($3::UUID[])\<close>: the condition of one row, and the rows that stay
  (those whose condition is not TRUE).
\<close>

definition deleteNonUpdatedRules_where ::
  "uuid \<Rightarrow> 'e \<Rightarrow> uuid sql_array \<Rightarrow> 'e RuleInstance \<Rightarrow> sql_bool" where
  "deleteNonUpdatedRules_where p1 p2 p3 r =
     sql_and (sql_and (sql_eq (ri_profile_id r) p1) (sql_eq (ri_entity_type r) p2))
       (sql_not (sql_eq_any (ri_id r) p3))"

definition deleteNonUpdatedRules ::
  "uuid \<Rightarrow> 'e \<Rightarrow> uuid sql_array \<Rightarrow> 'e RuleInstance list \<Rightarrow> 'e RuleInstance list" where
  "deleteNonUpdatedRules p1 p2 p3 tbl =
     filter (\<lambda>r. deleteNonUpdatedRules_where p1 p2 p3 r \<noteq> Some True) tbl"

text \<open>
  The Go method runs the statement with \<^verbatim>\<open>arg.ProfileID, arg.EntityType,
  pq.Array(arg.UpdatedIds)\<close> and returns the error of \<^verbatim>\<open>ExecContext\<close>: the failure of
  the call, with the table as it was, or none when the statement ran. The result is
  the error and the table afterwards.
\<close>

definition DeleteNonUpdatedRules ::
  "call_failure \<Rightarrow> 'e RuleInstance list \<Rightarrow> 'e DeleteNonUpdatedRulesParams
     \<Rightarrow> db_error option \<times> 'e RuleInstance list" where
  "DeleteNonUpdatedRules failure tbl arg =
     (case failure of
        Some e \<Rightarrow> (Some e, tbl)
      | None \<Rightarrow>
          (None, deleteNonUpdatedRules (del_ProfileID arg) (del_EntityType arg)
                   (pq_Array (del_UpdatedIds arg)) tbl))"

subsection \<open>UpsertRuleInstance\<close>

record 'e UpsertRuleInstanceParams =
  ups_ProfileID :: uuid
  ups_RuleTypeID :: uuid
  ups_Name :: string
  ups_EntityType :: 'e
  ups_Def :: RawMessage
  ups_Params :: RawMessage

text \<open>
  The conflict target \<^verbatim>\<open>ON CONFLICT (profile_id, entity_type, name)\<close> names a unique
  index on these three columns: a row conflicts with the proposed one when it agrees
  on all three, and a table never holds two rows that agree on all three.
\<close>

definition conflict_key :: "'e RuleInstance \<Rightarrow> uuid \<times> 'e \<times> string" where
  "conflict_key r = (ri_profile_id r, ri_entity_type r, ri_name r)"

definition conflicts :: "'e RuleInstance \<Rightarrow> 'e UpsertRuleInstanceParams \<Rightarrow> bool" where
  "conflicts r arg = (conflict_key r = (ups_ProfileID arg, ups_EntityType arg, ups_Name arg))"

definition unique_key :: "'e RuleInstance list \<Rightarrow> bool" where
  "unique_key tbl = distinct (map conflict_key tbl)"

text \<open>The row of the \<^verbatim>\<open>VALUES\<close> list; \<open>new_id\<close> is the default of the column \<^verbatim>\<open>id\<close>.\<close>

definition inserted_row ::
  "timestamp \<Rightarrow> uuid \<Rightarrow> 'e UpsertRuleInstanceParams \<Rightarrow> 'e RuleInstance" where
  "inserted_row now new_id arg =
     \<lparr>ri_id = new_id, ri_profile_id = ups_ProfileID arg, ri_rule_type_id = ups_RuleTypeID arg,
      ri_name = ups_Name arg, ri_entity_type = ups_EntityType arg, ri_def = ups_Def arg,
      ri_params = ups_Params arg, ri_created_at = now, ri_updated_at = now\<rparr>"

text \<open>
  \<^verbatim>\<open>DO UPDATE SET rule_type_id = $2, def = $5, params = $6, updated_at = NOW()\<close> on
  the conflicting row.
\<close>

definition conflict_update ::
  "timestamp \<Rightarrow> 'e UpsertRuleInstanceParams \<Rightarrow> 'e RuleInstance \<Rightarrow> 'e RuleInstance" where
  "conflict_update now arg r =
     r\<lparr>ri_rule_type_id := ups_RuleTypeID arg, ri_def := ups_Def arg,
       ri_params := ups_Params arg, ri_updated_at := now\<rparr>"

text \<open>
  What the statement does to the rows once its values are accepted: the conflicting row
  is updated where it stands, and without one the new row joins the table.
  \<^verbatim>\<open>RETURNING id\<close> gives the id of the row written.
\<close>

fun upsert_rows ::
  "timestamp \<Rightarrow> uuid \<Rightarrow> 'e UpsertRuleInstanceParams \<Rightarrow> 'e RuleInstance list
     \<Rightarrow> uuid \<times> 'e RuleInstance list" where
  "upsert_rows now new_id arg [] = (new_id, [inserted_row now new_id arg])"
| "upsert_rows now new_id arg (r # rs) =
     (if conflicts r arg then (ri_id r, conflict_update now arg r # rs)
      else (case upsert_rows now new_id arg rs of (i, rs') \<Rightarrow> (i, r # rs')))"

text \<open>
  The statement. \<^verbatim>\<open>Def\<close> and \<^verbatim>\<open>Params\<close> are \<^verbatim>\<open>json.RawMessage\<close>, the Go type of a JSON
  column: the database reads \<^verbatim>\<open>$5\<close> and \<^verbatim>\<open>$6\<close> as JSON, which is the argument \<open>json\<close>
  (\<open>None\<close> for a text that is not JSON, else the value the column stores). On a text
  that is not JSON the statement fails and changes nothing; otherwise the rows are
  written with the two values as read.
\<close>

definition upsertRuleInstance ::
  "(RawMessage \<Rightarrow> RawMessage option) \<Rightarrow> timestamp \<Rightarrow> uuid \<Rightarrow> 'e UpsertRuleInstanceParams
     \<Rightarrow> 'e RuleInstance list \<Rightarrow> db_error + (uuid \<times> 'e RuleInstance list)" where
  "upsertRuleInstance json now new_id arg tbl =
     (case json (ups_Def arg) of
        None \<Rightarrow> Inl (StatementError ''invalid input syntax for type json'')
      | Some d \<Rightarrow>
          (case json (ups_Params arg) of
             None \<Rightarrow> Inl (StatementError ''invalid input syntax for type json'')
           | Some p \<Rightarrow> Inr (upsert_rows now new_id (arg\<lparr>ups_Def := d, ups_Params := p\<rparr>) tbl)))"

text \<open>
  The Go method scans the returned id and returns it with the error of \<^verbatim>\<open>Scan\<close>: the
  failure of the call or the error of the statement, with the table as it was and no
  id. A statement that runs returns one row, so the scan has no \<^verbatim>\<open>ErrNoRows\<close>.
\<close>

definition UpsertRuleInstance ::
  "call_failure \<Rightarrow> (RawMessage \<Rightarrow> RawMessage option) \<Rightarrow> timestamp \<Rightarrow> uuid
     \<Rightarrow> 'e RuleInstance list \<Rightarrow> 'e UpsertRuleInstanceParams
     \<Rightarrow> (db_error + uuid) \<times> 'e RuleInstance list" where
  "UpsertRuleInstance failure json now new_id tbl arg =
     (case failure of
        Some e \<Rightarrow> (Inl e, tbl)
      | None \<Rightarrow>
          (case upsertRuleInstance json now new_id arg tbl of
             Inl e \<Rightarrow> (Inl e, tbl)
           | Inr (i, tbl') \<Rightarrow> (Inr i, tbl')))"

section \<open>The table \<^verbatim>\<open>rule_type\<close> (rule\_types.sql.go)\<close>

text \<open>
  A row has the fifteen columns of the \<^verbatim>\<open>RETURNING\<close> lists. \<open>'s\<close> and \<open>'p\<close> are the
  enumerations \<^verbatim>\<open>Severity\<close> and \<^verbatim>\<open>ReleaseStatus\<close>, which the file uses and does not
  declare.
\<close>

record ('s, 'p) RuleType =
  rt_id :: uuid
  rt_name :: string
  rt_provider :: "string option"
  rt_project_id :: uuid
  rt_description :: string
  rt_guidance :: string
  rt_definition :: RawMessage
  rt_created_at :: timestamp
  rt_updated_at :: timestamp
  rt_severity_value :: 's
  rt_provider_id :: "uuid option"
  rt_subscription_id :: "uuid option"
  rt_display_name :: string
  rt_release_phase :: 'p
  rt_short_failure_message :: string

subsection \<open>UpdateRuleType\<close>

record ('s, 'p) UpdateRuleTypeParams =
  upd_ID :: uuid
  upd_Description :: string
  upd_Definition :: RawMessage
  upd_SeverityValue :: 's
  upd_DisplayName :: string
  upd_ReleasePhase :: 'p
  upd_ShortFailureMessage :: string

text \<open>
  \<^verbatim>\<open>SET description = $2, definition = $3::jsonb, severity_value = $4,
  display_name = $5, release_phase = $6, short_failure_message = $7\<close> on one row.
  \<open>d\<close> is the value of the cast \<^verbatim>\<open>$3::jsonb\<close>.
\<close>

definition updateRuleType_set ::
  "RawMessage \<Rightarrow> ('s, 'p) UpdateRuleTypeParams \<Rightarrow> ('s, 'p) RuleType \<Rightarrow> ('s, 'p) RuleType" where
  "updateRuleType_set d arg r =
     r\<lparr>rt_description := upd_Description arg, rt_definition := d,
       rt_severity_value := upd_SeverityValue arg, rt_display_name := upd_DisplayName arg,
       rt_release_phase := upd_ReleasePhase arg,
       rt_short_failure_message := upd_ShortFailureMessage arg\<rparr>"

text \<open>
  The statement \<^verbatim>\<open>UPDATE rule_type SET ... WHERE id = $1 RETURNING ...\<close>. The cast to
  \<^verbatim>\<open>jsonb\<close> is the database's, taken as the argument \<open>jsonb\<close>: \<open>None\<close> for a text that
  is not JSON, on which the statement fails and changes nothing. Otherwise the rows
  with the id are set, and the statement returns them as they are afterwards.
\<close>

definition updateRuleType ::
  "(RawMessage \<Rightarrow> RawMessage option) \<Rightarrow> ('s, 'p) UpdateRuleTypeParams \<Rightarrow> ('s, 'p) RuleType list
     \<Rightarrow> db_error + (('s, 'p) RuleType list \<times> ('s, 'p) RuleType list)" where
  "updateRuleType jsonb arg tbl =
     (case jsonb (upd_Definition arg) of
        None \<Rightarrow> Inl (StatementError ''invalid input syntax for type json'')
      | Some d \<Rightarrow>
          (let tbl' = map (\<lambda>r. if rt_id r = upd_ID arg then updateRuleType_set d arg r else r) tbl
           in Inr (filter (\<lambda>r. rt_id r = upd_ID arg) tbl', tbl')))"

text \<open>
  The Go method scans the first returned row; \<^verbatim>\<open>Scan\<close> gives \<^verbatim>\<open>ErrNoRows\<close> when no row
  has the id. The result is the row or the error, and the table afterwards.
\<close>

definition UpdateRuleType ::
  "(RawMessage \<Rightarrow> RawMessage option) \<Rightarrow> ('s, 'p) RuleType list \<Rightarrow> ('s, 'p) UpdateRuleTypeParams
     \<Rightarrow> (db_error + ('s, 'p) RuleType) \<times> ('s, 'p) RuleType list" where
  "UpdateRuleType jsonb tbl arg =
     (case updateRuleType jsonb arg tbl of
        Inl e \<Rightarrow> (Inl e, tbl)
      | Inr (rows, tbl') \<Rightarrow>
          (case rows of [] \<Rightarrow> (Inl ErrNoRows, tbl') | r # _ \<Rightarrow> (Inr r, tbl')))"

section \<open>The authorization interceptor (spec 4.1)\<close>

text \<open>
  The values are those of handlers\_authz\_test.go: the target resource a method declares
  in its RPC options; the status codes; an error made by \<^verbatim>\<open>status.Errorf\<close> or by
  \<^verbatim>\<open>util.UserVisibleError\<close>; \<^verbatim>\<open>engine.EntityContext\<close> with the id of its project and the
  name of its provider, whose zero value has the project id \<open>0\<close>; and what a call
  context carries: the RPC options, the project ids of \<^verbatim>\<open>auth.UserPermissions\<close>, and the
  entity context.
\<close>

datatype TargetResource =
  TARGET_RESOURCE_UNSPECIFIED | TARGET_RESOURCE_NONE | TARGET_RESOURCE_USER
| TARGET_RESOURCE_PROJECT

datatype Code = Internal | InvalidArgument | PermissionDenied

datatype rpc_error = StatusError Code string | UserVisibleError Code string

record EntityContext =
  Project_ID :: uuid
  Provider_Name :: string

record call_context =
  rpcOptions_TargetResource :: TargetResource
  permissions_ProjectIds :: "uuid list"
  entityContext :: EntityContext

text \<open>
  Modelled from the spec: \<^verbatim>\<open>ProjectAuthorizationInterceptor\<close> is not among the sources,
  only its test is. Section 4.1: a no-op for a target resource that is not
  project-scoped; otherwise it checks whether the resolved project id is a member of
  the caller's permitted project set, and any miss, a zero project id included, gives a
  uniform user-visible permission-denied error; on success the original handler runs
  unmodified. The text of the error is the one the test expects. The result is the
  handler's or the error, and the calls made to the handler.
\<close>

definition ProjectAuthorizationInterceptor ::
  "call_context \<Rightarrow> 'req \<Rightarrow> (call_context \<Rightarrow> 'req \<Rightarrow> rpc_error + 'reply)
     \<Rightarrow> (rpc_error + 'reply) \<times> (call_context \<times> 'req) list" where
  "ProjectAuthorizationInterceptor ctx req handler =
     (if rpcOptions_TargetResource ctx \<noteq> TARGET_RESOURCE_PROJECT
      then (handler ctx req, [(ctx, req)])
      else if Project_ID (entityContext ctx) \<in> set (permissions_ProjectIds ctx)
      then (handler ctx req, [(ctx, req)])
      else (Inl (UserVisibleError PermissionDenied
                   ''user is not authorized to access this project''), []))"

section \<open>The data-source registry builder (spec 4.4)\<close>

text \<open>
  The values are those of the service's test: a rule type with the project of its
  context (the getter gives the empty string for none) and the data-source references
  of its evaluation section, a reference being \<^verbatim>\<open>nil\<close> (\<open>None\<close>) or carrying a name; the
  rows \<^verbatim>\<open>db.DataSource\<close> and \<^verbatim>\<open>db.DataSourcesFunction\<close>; and the three calls of the
  Store the build makes, each giving a result or an error.
\<close>

record DataSourceReference =
  ref_Name :: string

record pb_RuleType =
  Context_Project :: string
  Def_Eval_DataSources :: "DataSourceReference option list"

record DataSource =
  ds_ID :: uuid
  ds_Name :: string
  ds_ProjectID :: uuid

record DataSourcesFunction =
  fn_ID :: uuid
  fn_DataSourceID :: uuid
  fn_ProjectID :: uuid
  fn_Name :: string
  fn_Type :: string
  fn_Definition :: RawMessage

record Store =
  GetParentProjects :: "uuid \<Rightarrow> db_error + uuid list"
  GetDataSourceByName :: "string \<Rightarrow> uuid list \<Rightarrow> db_error + DataSource"
  ListDataSourceFunctions :: "uuid \<Rightarrow> uuid \<Rightarrow> db_error + DataSourcesFunction list"

datatype build_error =
  InputError string | StoreError db_error | DecodeError string | CollisionError string

type_synonym 'd decoders = "string \<Rightarrow> (RawMessage \<Rightarrow> 'd option) option"
type_synonym 'd Registry = "(string \<times> (string \<times> 'd) list) list"

text \<open>
  Modelled from the spec: the decoders are not among the sources. Section 4.4, step 4:
  each function's driver type selects a decoder for its definition payload; an unknown
  driver type or a malformed payload fails the function's registration. \<open>dec\<close> gives
  the decoder of a driver type, if there is one, and a decoder gives the decoded
  definition, if the payload is well-formed.
\<close>

definition decodable :: "'d decoders \<Rightarrow> DataSourcesFunction \<Rightarrow> bool" where
  "decodable dec f =
     (case dec (fn_Type f) of None \<Rightarrow> False | Some decode \<Rightarrow> decode (fn_Definition f) \<noteq> None)"

fun decode_functions ::
  "'d decoders \<Rightarrow> DataSourcesFunction list \<Rightarrow> build_error + (string \<times> 'd) list" where
  "decode_functions dec [] = Inr []"
| "decode_functions dec (f # fs) =
     (case dec (fn_Type f) of
        None \<Rightarrow> Inl (DecodeError ''unsupported driver type'')
      | Some decode \<Rightarrow>
          (case decode (fn_Definition f) of
             None \<Rightarrow> Inl (DecodeError ''malformed definition'')
           | Some d \<Rightarrow>
               (case decode_functions dec fs of
                  Inl e \<Rightarrow> Inl e
                | Inr ds \<Rightarrow> Inr ((fn_Name f, d) # ds))))"

text \<open>
  Modelled from the spec: the instantiation of one reference is not among the sources.
  Section 4.4, steps 3 and 4: a \<^verbatim>\<open>nil\<close> reference or one with an empty name is a fatal
  input error; the named data source is looked up in the resolved project set, and
  "not found" and any other Store error fail the build; its functions are listed, and
  zero functions is a fatal error; a function that does not decode aborts the build.
\<close>

definition instantiateDataSource ::
  "Store \<Rightarrow> 'd decoders \<Rightarrow> uuid list \<Rightarrow> DataSourceReference option
     \<Rightarrow> build_error + (string \<times> (string \<times> 'd) list)" where
  "instantiateDataSource st dec hierarchy ref =
     (case ref of
        None \<Rightarrow> Inl (InputError ''nil data source reference'')
      | Some r \<Rightarrow>
          if ref_Name r = [] then Inl (InputError ''empty data source name'')
          else (case GetDataSourceByName st (ref_Name r) hierarchy of
                  Inl e \<Rightarrow> Inl (StoreError e)
                | Inr ds \<Rightarrow>
                    (case ListDataSourceFunctions st (ds_ID ds) (ds_ProjectID ds) of
                       Inl e \<Rightarrow> Inl (StoreError e)
                     | Inr fs \<Rightarrow>
                         if fs = [] then Inl (InputError ''data source has no functions'')
                         else (case decode_functions dec fs of
                                 Inl e \<Rightarrow> Inl e
                               | Inr ds' \<Rightarrow> Inr (ds_Name ds, ds')))))"

text \<open>
  Modelled from the spec: the registry is not among the sources. Section 4.4, step 5:
  the decoded functions are registered under the data source's namespace, in the order
  the references are declared; a name that collides with one registered for another
  reference is rejected.
\<close>

fun register_all ::
  "Store \<Rightarrow> 'd decoders \<Rightarrow> uuid list \<Rightarrow> DataSourceReference option list \<Rightarrow> 'd Registry
     \<Rightarrow> build_error + 'd Registry" where
  "register_all st dec hierarchy [] reg = Inr reg"
| "register_all st dec hierarchy (ref # refs) reg =
     (case instantiateDataSource st dec hierarchy ref of
        Inl e \<Rightarrow> Inl e
      | Inr (ns, fs) \<Rightarrow>
          if ns \<in> set (map fst reg) then Inl (CollisionError ns)
          else register_all st dec hierarchy refs (reg @ [(ns, fs)]))"

text \<open>
  Modelled from the spec: \<^verbatim>\<open>BuildDataSourceRegistry\<close> is not among the sources, only its
  test is. Section 4.4, steps 1 and 2: the rule type's project id is parsed, an
  unparsable id being a fatal input error (\<open>parse_uuid\<close> is \<^verbatim>\<open>uuid.Parse\<close>); the ancestor
  chain of the project is resolved with \<^verbatim>\<open>GetParentProjects\<close>, whose error propagates;
  then every reference is instantiated and registered. The result is the registry or
  an error, never both.
\<close>

definition BuildDataSourceRegistry ::
  "(string \<Rightarrow> uuid option) \<Rightarrow> 'd decoders \<Rightarrow> Store \<Rightarrow> pb_RuleType
     \<Rightarrow> build_error + 'd Registry" where
  "BuildDataSourceRegistry parse_uuid dec st rt =
     (case parse_uuid (Context_Project rt) of
        None \<Rightarrow> Inl (InputError ''failed to parse project UUID'')
      | Some p \<Rightarrow>
          (case GetParentProjects st p of
             Inl e \<Rightarrow> Inl (StoreError e)
           | Inr hierarchy \<Rightarrow> register_all st dec hierarchy (Def_Eval_DataSources rt) []))"

text \<open>A reference whose instantiation fails, by the results of the Store and the decoders.\<close>

definition bad_reference ::
  "Store \<Rightarrow> 'd decoders \<Rightarrow> uuid list \<Rightarrow> DataSourceReference option \<Rightarrow> bool" where
  "bad_reference st dec hierarchy ref =
     (case ref of
        None \<Rightarrow> True
      | Some r \<Rightarrow>
          ref_Name r = [] \<or>
          (case GetDataSourceByName st (ref_Name r) hierarchy of
             Inl e \<Rightarrow> True
           | Inr ds \<Rightarrow>
               (case ListDataSourceFunctions st (ds_ID ds) (ds_ProjectID ds) of
                  Inl e \<Rightarrow> True
                | Inr fs \<Rightarrow> list_all (\<lambda>f. \<not> decodable dec f) fs)))"

section \<open>Example tables\<close>

text \<open>
  A profile \<open>1\<close> whose repository rules are \<open>A\<close> (id 10) and \<open>C\<close> (id 12), a rule \<open>D\<close>
  of the same profile for another entity type, and a rule \<open>E\<close> of another profile.
\<close>

definition rule_A :: "string RuleInstance" where
  "rule_A = \<lparr>ri_id = 10, ri_profile_id = 1, ri_rule_type_id = 100, ri_name = ''A'',
     ri_entity_type = ''repository'', ri_def = ''{}'', ri_params = ''{}'',
     ri_created_at = 5, ri_updated_at = 5\<rparr>"

definition rule_C :: "string RuleInstance" where
  "rule_C = \<lparr>ri_id = 12, ri_profile_id = 1, ri_rule_type_id = 102, ri_name = ''C'',
     ri_entity_type = ''repository'', ri_def = ''{}'', ri_params = ''{}'',
     ri_created_at = 6, ri_updated_at = 6\<rparr>"

definition rule_D :: "string RuleInstance" where
  "rule_D = \<lparr>ri_id = 13, ri_profile_id = 1, ri_rule_type_id = 100, ri_name = ''A'',
     ri_entity_type = ''artifact'', ri_def = ''{}'', ri_params = ''{}'',
     ri_created_at = 7, ri_updated_at = 7\<rparr>"

definition rule_E :: "string RuleInstance" where
  "rule_E = \<lparr>ri_id = 14, ri_profile_id = 2, ri_rule_type_id = 100, ri_name = ''A'',
     ri_entity_type = ''repository'', ri_def = ''{}'', ri_params = ''{}'',
     ri_created_at = 8, ri_updated_at = 8\<rparr>"

definition rule_B :: "string RuleInstance" where
  "rule_B = \<lparr>ri_id = 11, ri_profile_id = 1, ri_rule_type_id = 101, ri_name = ''B'',
     ri_entity_type = ''repository'', ri_def = ''[1]'', ri_params = ''{}'',
     ri_created_at = 20, ri_updated_at = 20\<rparr>"

text \<open>
  Calls of the two methods on it: a profile sync that submitted the ids of \<open>A\<close> and
  \<open>B\<close>, one whose slice of ids is \<^verbatim>\<open>nil\<close>, one whose slice is empty, and the upserts of
  \<open>A\<close> (with a new rule type, definition and parameters) and of \<open>B\<close>.
\<close>

definition sync_AB :: "string DeleteNonUpdatedRulesParams" where
  "sync_AB = \<lparr>del_ProfileID = 1, del_EntityType = ''repository'',
     del_UpdatedIds = GoSlice [10, 11]\<rparr>"

definition sync_nil :: "string DeleteNonUpdatedRulesParams" where
  "sync_nil = \<lparr>del_ProfileID = 1, del_EntityType = ''repository'', del_UpdatedIds = GoNil\<rparr>"

definition sync_empty :: "string DeleteNonUpdatedRulesParams" where
  "sync_empty = \<lparr>del_ProfileID = 1, del_EntityType = ''repository'',
     del_UpdatedIds = GoSlice []\<rparr>"

definition upsert_A :: "string UpsertRuleInstanceParams" where
  "upsert_A = \<lparr>ups_ProfileID = 1, ups_RuleTypeID = 200, ups_Name = ''A'',
     ups_EntityType = ''repository'', ups_Def = ''[1]'', ups_Params = ''[2]''\<rparr>"

definition upsert_B :: "string UpsertRuleInstanceParams" where
  "upsert_B = \<lparr>ups_ProfileID = 1, ups_RuleTypeID = 101, ups_Name = ''B'',
     ups_EntityType = ''repository'', ups_Def = ''[1]'', ups_Params = ''{}''\<rparr>"

text \<open>
  A call whose context is cancelled, a reading of JSON that accepts the texts the upserts
  carry, and an upsert of \<open>A\<close> whose definition is not JSON.
\<close>

definition cancelled :: call_failure where
  "cancelled = Some (StatementError ''context canceled'')"

definition example_json :: "RawMessage \<Rightarrow> RawMessage option" where
  "example_json t = (if t = ''[1]'' \<or> t = ''[2]'' \<or> t = ''{}'' then Some t else None)"

definition upsert_not_json :: "string UpsertRuleInstanceParams" where
  "upsert_not_json = \<lparr>ups_ProfileID = 1, ups_RuleTypeID = 200, ups_Name = ''A'',
     ups_EntityType = ''repository'', ups_Def = ''oops'', ups_Params = ''{}''\<rparr>"

text \<open>Two rule types, and a cast to \<^verbatim>\<open>jsonb\<close> that accepts the two texts used below.\<close>

definition type_1 :: "(string, string) RuleType" where
  "type_1 = \<lparr>rt_id = 100, rt_name = ''secret_scanning'', rt_provider = Some ''github'',
     rt_project_id = 7, rt_description = ''old'', rt_guidance = ''enable it'',
     rt_definition = ''{}'', rt_created_at = 3, rt_updated_at = 3,
     rt_severity_value = ''low'', rt_provider_id = None, rt_subscription_id = Some 9,
     rt_display_name = ''Secret scanning'', rt_release_phase = ''alpha'',
     rt_short_failure_message = ''off''\<rparr>"

definition type_2 :: "(string, string) RuleType" where
  "type_2 = \<lparr>rt_id = 101, rt_name = ''branch_protection'', rt_provider = None,
     rt_project_id = 7, rt_description = ''other'', rt_guidance = ''protect it'',
     rt_definition = ''{}'', rt_created_at = 4, rt_updated_at = 4,
     rt_severity_value = ''high'', rt_provider_id = None, rt_subscription_id = None,
     rt_display_name = ''Branch protection'', rt_release_phase = ''ga'',
     rt_short_failure_message = ''unprotected''\<rparr>"

definition update_1 :: "(string, string) UpdateRuleTypeParams" where
  "update_1 = \<lparr>upd_ID = 100, upd_Description = ''new'', upd_Definition = ''[1, 2]'',
     upd_SeverityValue = ''high'', upd_DisplayName = ''Secrets'', upd_ReleasePhase = ''beta'',
     upd_ShortFailureMessage = ''disabled''\<rparr>"

definition example_jsonb :: "RawMessage \<Rightarrow> RawMessage option" where
  "example_jsonb t =
     (if t = ''[1, 2]'' then Some ''[1, 2]'' else if t = ''{}'' then Some ''{}'' else None)"

text \<open>
  The cases of \<^verbatim>\<open>TestProjectAuthorizationInterceptor\<close>: the caller may act on the project
  \<open>2\<close> (\<^verbatim>\<open>defaultProjectID\<close>), \<open>1\<close> is another project (\<^verbatim>\<open>projectID\<close>), and the handler replies with
  the entity context it sees.
\<close>

definition test_context :: "TargetResource \<Rightarrow> uuid \<Rightarrow> call_context" where
  "test_context resource project =
     \<lparr>rpcOptions_TargetResource = resource, permissions_ProjectIds = [2],
      entityContext = \<lparr>Project_ID = project, Provider_Name = []\<rparr>\<rparr>"

definition unaryHandler :: "call_context \<Rightarrow> unit \<Rightarrow> rpc_error + EntityContext" where
  "unaryHandler ctx req = Inr (entityContext ctx)"

text \<open>
  The cases of \<^verbatim>\<open>TestBuildDataSourceRegistry\<close>: a parser that accepts one project id, a
  decoder for the driver type of the REST driver (written \<open>rest\<close> here) that accepts
  every payload but the empty one, the rule type of a case, the rows the mock returns,
  and a mock Store that answers each call with a fixed result.
\<close>

definition test_parse :: "string \<Rightarrow> uuid option" where
  "test_parse s = (if s = ''00000000-0000-0000-0000-000000000001'' then Some 1 else None)"

definition test_decoders :: "string decoders" where
  "test_decoders t =
     (if t = ''rest'' then Some (\<lambda>d. if d = [] then None else Some d) else None)"

definition test_rt :: "string \<Rightarrow> DataSourceReference option list \<Rightarrow> pb_RuleType" where
  "test_rt project refs = \<lparr>Context_Project = project, Def_Eval_DataSources = refs\<rparr>"

definition test_project :: string where
  "test_project = ''00000000-0000-0000-0000-000000000001''"

definition test_ref :: "DataSourceReference option" where
  "test_ref = Some \<lparr>ref_Name = ''test_data_source''\<rparr>"

definition test_ds :: DataSource where
  "test_ds = \<lparr>ds_ID = 5, ds_Name = ''test_data_source'', ds_ProjectID = 1\<rparr>"

definition test_function :: DataSourcesFunction where
  "test_function = \<lparr>fn_ID = 6, fn_DataSourceID = 5, fn_ProjectID = 1,
     fn_Name = ''test_function'', fn_Type = ''rest'', fn_Definition = ''http://example.com''\<rparr>"

definition zero_function :: DataSourcesFunction where
  "zero_function = \<lparr>fn_ID = 0, fn_DataSourceID = 0, fn_ProjectID = 0,
     fn_Name = [], fn_Type = [], fn_Definition = []\<rparr>"

definition mock_store ::
  "(db_error + uuid list) \<Rightarrow> (db_error + DataSource) \<Rightarrow> (db_error + DataSourcesFunction list)
     \<Rightarrow> Store" where
  "mock_store parents ds fs =
     \<lparr>GetParentProjects = (\<lambda>p. parents), GetDataSourceByName = (\<lambda>n h. ds),
      ListDataSourceFunctions = (\<lambda>d p. fs)\<rparr>"

section \<open>UpdateRuleType: what the statement leaves alone\<close>

lemma updateRuleType_set_frame:
  "updateRuleType_set d arg r
     \<lparr>rt_description := rt_description r, rt_definition := rt_definition r,
      rt_severity_value := rt_severity_value r, rt_display_name := rt_display_name r,
      rt_release_phase := rt_release_phase r,
      rt_short_failure_message := rt_short_failure_message r\<rparr> = r"
  by (simp add: updateRuleType_set_def)

lemma UpdateRuleType_table:
  "snd (UpdateRuleType jsonb tbl arg) =
     (case jsonb (upd_Definition arg) of
        None \<Rightarrow> tbl
      | Some d \<Rightarrow> map (\<lambda>r. if rt_id r = upd_ID arg then updateRuleType_set d arg r else r) tbl)"
  by (simp add: UpdateRuleType_def updateRuleType_def Let_def split: option.splits list.splits)

text \<open>
  C10. For every rule-type update, \<open>UpdateRuleType\<close> changes only the description,
  definition, severity\_value, display\_name, release\_phase and short\_failure\_message
  of the row with the given id. The table keeps its rows in place; every row keeps its
  id, name, guidance, project\_id, provider, subscription\_id and created\_at (and every
  column but the six: resetting the six to their old values gives the old row back);
  a row with another id is the same row afterwards; and when the statement succeeds, the
  six columns of a row with the given id hold the parameters of the call, the definition
  as the cast to \<^verbatim>\<open>jsonb\<close> gives it.
\<close>

theorem UpdateRuleType_frame:
  "(let tbl' = snd (UpdateRuleType jsonb tbl arg) in
     length tbl' = length tbl \<and>
     (\<forall>i < length tbl.
        rt_id (tbl' ! i) = rt_id (tbl ! i) \<and>
        rt_name (tbl' ! i) = rt_name (tbl ! i) \<and>
        rt_guidance (tbl' ! i) = rt_guidance (tbl ! i) \<and>
        rt_project_id (tbl' ! i) = rt_project_id (tbl ! i) \<and>
        rt_provider (tbl' ! i) = rt_provider (tbl ! i) \<and>
        rt_subscription_id (tbl' ! i) = rt_subscription_id (tbl ! i) \<and>
        rt_created_at (tbl' ! i) = rt_created_at (tbl ! i) \<and>
        (tbl' ! i)
          \<lparr>rt_description := rt_description (tbl ! i), rt_definition := rt_definition (tbl ! i),
           rt_severity_value := rt_severity_value (tbl ! i),
           rt_display_name := rt_display_name (tbl ! i),
           rt_release_phase := rt_release_phase (tbl ! i),
           rt_short_failure_message := rt_short_failure_message (tbl ! i)\<rparr> = tbl ! i \<and>
        (rt_id (tbl ! i) \<noteq> upd_ID arg \<longrightarrow> tbl' ! i = tbl ! i) \<and>
        (rt_id (tbl ! i) = upd_ID arg \<longrightarrow>
           (\<forall>d. jsonb (upd_Definition arg) = Some d \<longrightarrow>
              rt_description (tbl' ! i) = upd_Description arg \<and>
              rt_definition (tbl' ! i) = d \<and>
              rt_severity_value (tbl' ! i) = upd_SeverityValue arg \<and>
              rt_display_name (tbl' ! i) = upd_DisplayName arg \<and>
              rt_release_phase (tbl' ! i) = upd_ReleasePhase arg \<and>
              rt_short_failure_message (tbl' ! i) = upd_ShortFailureMessage arg))))"
proof (cases "jsonb (upd_Definition arg)")
  case None
  then have "snd (UpdateRuleType jsonb tbl arg) = tbl"
    by (simp add: UpdateRuleType_table)
  then show ?thesis
    by (simp add: Let_def None)
next
  case (Some d)
  then have tbl': "snd (UpdateRuleType jsonb tbl arg) =
      map (\<lambda>r. if rt_id r = upd_ID arg then updateRuleType_set d arg r else r) tbl"
    by (simp add: UpdateRuleType_table)
  show ?thesis
    unfolding Let_def tbl'
    by (simp add: Some updateRuleType_set_def)
qed

theorem UpdateRuleType_frame_witness:
  "(0::nat) < length [type_1, type_2] \<and> (1::nat) < length [type_1, type_2] \<and>
   rt_id ([type_1, type_2] ! 0) = upd_ID update_1 \<and>
   rt_id ([type_1, type_2] ! 1) \<noteq> upd_ID update_1 \<and>
   example_jsonb (upd_Definition update_1) = Some ''[1, 2]'' \<and>
   fst (UpdateRuleType example_jsonb [type_1, type_2] update_1) =
     Inr (type_1\<lparr>rt_description := ''new'', rt_definition := ''[1, 2]'',
            rt_severity_value := ''high'', rt_display_name := ''Secrets'',
            rt_release_phase := ''beta'', rt_short_failure_message := ''disabled''\<rparr>) \<and>
   length (snd (UpdateRuleType example_jsonb [type_1, type_2] update_1)) = 2 \<and>
   snd (UpdateRuleType example_jsonb [type_1, type_2] update_1) ! 1 = type_2 \<and>
   rt_name (snd (UpdateRuleType example_jsonb [type_1, type_2] update_1) ! 0)
     = ''secret_scanning'' \<and>
   rt_created_at (snd (UpdateRuleType example_jsonb [type_1, type_2] update_1) ! 0) = 3 \<and>
   rt_description (snd (UpdateRuleType example_jsonb [type_1, type_2] update_1) ! 0) = ''new''"
proof -
  have ev: "UpdateRuleType example_jsonb [type_1, type_2] update_1 =
      (Inr (updateRuleType_set ''[1, 2]'' update_1 type_1),
       [updateRuleType_set ''[1, 2]'' update_1 type_1, type_2])"
    by (simp add: UpdateRuleType_def updateRuleType_def updateRuleType_set_def
        example_jsonb_def update_1_def type_1_def type_2_def Let_def)
  have fr: "let tbl' = snd (UpdateRuleType example_jsonb [type_1, type_2] update_1) in
      length tbl' = length [type_1, type_2] \<and>
      (\<forall>i < length [type_1, type_2].
         rt_name (tbl' ! i) = rt_name ([type_1, type_2] ! i) \<and>
         rt_created_at (tbl' ! i) = rt_created_at ([type_1, type_2] ! i) \<and>
         (rt_id ([type_1, type_2] ! i) \<noteq> upd_ID update_1 \<longrightarrow> tbl' ! i = [type_1, type_2] ! i))"
    using UpdateRuleType_frame [of example_jsonb "[type_1, type_2]" update_1]
    by (simp add: Let_def)
  have ids: "rt_id type_1 = upd_ID update_1" "rt_id type_2 \<noteq> upd_ID update_1"
    by (simp_all add: type_1_def type_2_def update_1_def)
  have "snd (UpdateRuleType example_jsonb [type_1, type_2] update_1) ! 1 = type_2"
    using fr ids by (simp add: Let_def)
  moreover have "rt_name (snd (UpdateRuleType example_jsonb [type_1, type_2] update_1) ! 0)
      = ''secret_scanning''"
    using fr by (simp add: Let_def type_1_def)
  moreover have "rt_created_at (snd (UpdateRuleType example_jsonb [type_1, type_2] update_1) ! 0)
      = 3"
    using fr by (simp add: Let_def type_1_def)
  moreover have "length (snd (UpdateRuleType example_jsonb [type_1, type_2] update_1)) = 2"
    using fr by (simp add: Let_def)
  moreover have "fst (UpdateRuleType example_jsonb [type_1, type_2] update_1) =
      Inr (type_1\<lparr>rt_description := ''new'', rt_definition := ''[1, 2]'',
             rt_severity_value := ''high'', rt_display_name := ''Secrets'',
             rt_release_phase := ''beta'', rt_short_failure_message := ''disabled''\<rparr>)"
    unfolding ev by (simp add: updateRuleType_set_def update_1_def)
  moreover have "rt_description
      (snd (UpdateRuleType example_jsonb [type_1, type_2] update_1) ! 0) = ''new''"
    unfolding ev by (simp add: updateRuleType_set_def update_1_def)
  moreover have "example_jsonb (upd_Definition update_1) = Some ''[1, 2]''"
    by (simp add: update_1_def example_jsonb_def)
  ultimately show ?thesis
    using ids by simp
qed

section \<open>DeleteNonUpdatedRules: the rows that go\<close>

lemmas rules_defs = rule_A_def rule_B_def rule_C_def rule_D_def rule_E_def

lemma eq_some_element_iff: "eq_some_element x ys \<longleftrightarrow> x \<in> set ys"
  by (induction ys) auto

lemma sql_and_Some: "sql_and (Some a) (Some b) = Some (a \<and> b)"
  by (cases a; cases b) simp_all

lemma deleteNonUpdatedRules_where_array:
  "deleteNonUpdatedRules_where p1 p2 (SqlArray ids) r =
     Some (ri_profile_id r = p1 \<and> ri_entity_type r = p2 \<and> ri_id r \<notin> set ids)"
  by (simp add: deleteNonUpdatedRules_where_def sql_eq_def eq_some_element_iff sql_and_Some)

lemma deleteNonUpdatedRules_where_null:
  "deleteNonUpdatedRules_where p1 p2 SqlNull r \<noteq> Some True"
  by (cases "ri_profile_id r = p1"; cases "ri_entity_type r = p2")
     (simp_all add: deleteNonUpdatedRules_where_def sql_eq_def)

text \<open>A call that fails returns its error and leaves the table as it was.\<close>

lemma DeleteNonUpdatedRules_failure:
  "DeleteNonUpdatedRules (Some e) tbl arg = (Some e, tbl)"
  by (simp add: DeleteNonUpdatedRules_def)

text \<open>
  The statement that runs on a slice that is not \<^verbatim>\<open>nil\<close>, the empty one included: the
  rows that stay are those of another profile, of another entity type, or with their id
  in the slice.
\<close>

lemma DeleteNonUpdatedRules_slice:
  "del_UpdatedIds arg = GoSlice ids \<Longrightarrow>
   DeleteNonUpdatedRules None tbl arg =
     (None, filter (\<lambda>r. \<not> (ri_profile_id r = del_ProfileID arg \<and>
                              ri_entity_type r = del_EntityType arg \<and>
                              ri_id r \<notin> set ids)) tbl)"
  by (simp add: DeleteNonUpdatedRules_def deleteNonUpdatedRules_def
      deleteNonUpdatedRules_where_array)

lemma DeleteNonUpdatedRules_empty_example:
  "DeleteNonUpdatedRules None [rule_A, rule_C, rule_D, rule_E] sync_empty
     = (None, [rule_D, rule_E])"
  by (simp add: DeleteNonUpdatedRules_slice [of _ "[]"] sync_empty_def rules_defs)

text \<open>
  A submission of no ids does not always delete what was not submitted. The empty slice
  does, as above. A \<^verbatim>\<open>nil\<close> slice reaches the statement as a NULL array: the condition
  of every row is then FALSE or NULL, and no row is deleted, although the statement
  runs and returns no error.
\<close>

lemma DeleteNonUpdatedRules_nil:
  "del_UpdatedIds arg = GoNil \<Longrightarrow> DeleteNonUpdatedRules None tbl arg = (None, tbl)"
  by (simp add: DeleteNonUpdatedRules_def deleteNonUpdatedRules_def
      deleteNonUpdatedRules_where_null)

lemma DeleteNonUpdatedRules_nil_example:
  "DeleteNonUpdatedRules None [rule_A, rule_C, rule_D, rule_E] sync_nil
     = (None, [rule_A, rule_C, rule_D, rule_E])"
  by (simp add: DeleteNonUpdatedRules_nil sync_nil_def)

text \<open>
  C8, amended. For every profile id, entity type and submitted ids, at least one, a call
  of \<open>DeleteNonUpdatedRules\<close> that does not fail returns no error and leaves exactly the
  rows that are of another profile, of another entity type, or have their id among the
  submitted ones, each as it was: it deletes exactly the rows of the profile and entity
  type whose id was not submitted.
\<close>

theorem DeleteNonUpdatedRules_exact:
  "elems (del_UpdatedIds arg) \<noteq> [] \<Longrightarrow>
   DeleteNonUpdatedRules None tbl arg =
     (None, filter (\<lambda>r. \<not> (ri_profile_id r = del_ProfileID arg \<and>
                              ri_entity_type r = del_EntityType arg \<and>
                              ri_id r \<notin> set (elems (del_UpdatedIds arg)))) tbl)"
  by (cases "del_UpdatedIds arg") (simp_all add: DeleteNonUpdatedRules_slice)

text \<open>
  The scenario of C8: the profile held \<open>A\<close> and \<open>C\<close>, the sync upserted \<open>A\<close> and \<open>B\<close> and
  submits their ids; \<open>C\<close> goes, and \<open>A\<close>, \<open>B\<close> and the rules of the other entity type and
  of the other profile stay.
\<close>

theorem DeleteNonUpdatedRules_exact_witness:
  "elems (del_UpdatedIds sync_AB) \<noteq> [] \<and>
   set (elems (del_UpdatedIds sync_AB)) = {ri_id rule_A, ri_id rule_B} \<and>
   DeleteNonUpdatedRules None [rule_A, rule_C, rule_D, rule_E, rule_B] sync_AB =
     (None, [rule_A, rule_D, rule_E, rule_B])"
proof -
  have s: "elems (del_UpdatedIds sync_AB) \<noteq> []"
    by (simp add: sync_AB_def)
  have "DeleteNonUpdatedRules None [rule_A, rule_C, rule_D, rule_E, rule_B] sync_AB =
     (None, [rule_A, rule_D, rule_E, rule_B])"
    using DeleteNonUpdatedRules_exact [OF s, of "[rule_A, rule_C, rule_D, rule_E, rule_B]"]
    by (simp add: sync_AB_def rules_defs)
  then show ?thesis
    by (simp add: sync_AB_def rules_defs)
qed

text \<open>
  C8 as stated fails for a call that fails. The sync submits the ids of \<open>A\<close> and \<open>B\<close> on a
  context that is cancelled: \<open>C\<close> is a rule of the profile and entity type and its id was
  not submitted, yet the method returns the error and \<open>C\<close> is still in the table.
\<close>

theorem DeleteNonUpdatedRules_cancelled_counterexample:
  "ri_profile_id rule_C = del_ProfileID sync_AB \<and>
   ri_entity_type rule_C = del_EntityType sync_AB \<and>
   ri_id rule_C \<notin> set (elems (del_UpdatedIds sync_AB)) \<and>
   DeleteNonUpdatedRules cancelled [rule_A, rule_C] sync_AB =
     (Some (StatementError ''context canceled''), [rule_A, rule_C])"
  by (simp add: DeleteNonUpdatedRules_failure cancelled_def sync_AB_def rule_C_def)

section \<open>UpsertRuleInstance: update in place or insert\<close>

text \<open>Both statements keep the conflict key unique.\<close>

lemma deleteNonUpdatedRules_unique:
  "unique_key tbl \<Longrightarrow> unique_key (snd (DeleteNonUpdatedRules failure tbl arg))"
  by (cases failure)
     (simp_all add: DeleteNonUpdatedRules_def deleteNonUpdatedRules_def unique_key_def
        distinct_map_filter)

lemma map_other: "a \<notin> set rs \<Longrightarrow> map (\<lambda>x. if x = a then y else x) rs = rs"
  by (induction rs) auto

lemma conflict_key_update [simp]: "conflict_key (conflict_update now arg r) = conflict_key r"
  by (simp add: conflict_key_def conflict_update_def)

lemma upsert_conflict:
  "unique_key tbl \<Longrightarrow> r \<in> set tbl \<Longrightarrow> conflicts r arg \<Longrightarrow>
   upsert_rows now new_id arg tbl =
     (ri_id r, map (\<lambda>x. if x = r then conflict_update now arg r else x) tbl)"
proof (induction tbl)
  case Nil
  then show ?case by simp
next
  case (Cons a rs)
  show ?case
  proof (cases "conflicts a arg")
    case True
    then have "conflict_key a = conflict_key r"
      using Cons.prems(3) by (simp add: conflicts_def)
    moreover have "conflict_key a \<notin> set (map conflict_key rs)"
      using Cons.prems(1) by (simp add: unique_key_def)
    ultimately have ra: "r = a" and nin: "a \<notin> set rs"
      using Cons.prems(2) by auto
    then show ?thesis
      using True by (simp add: map_other)
  next
    case False
    then have "r \<noteq> a" using Cons.prems(3) by auto
    then have "r \<in> set rs" using Cons.prems(2) by simp
    moreover have "unique_key rs" using Cons.prems(1) by (simp add: unique_key_def)
    ultimately show ?thesis
      using Cons.IH Cons.prems(3) False \<open>r \<noteq> a\<close> by simp
  qed
qed

lemma upsert_insert:
  "\<forall>r\<in>set tbl. \<not> conflicts r arg \<Longrightarrow>
   upsert_rows now new_id arg tbl = (new_id, tbl @ [inserted_row now new_id arg])"
  by (induction tbl) auto

lemma upsert_rows_unique:
  assumes u: "unique_key tbl"
  shows "unique_key (snd (upsert_rows now new_id arg tbl))"
proof (cases "\<exists>r\<in>set tbl. conflicts r arg")
  case True
  then obtain r where r: "r \<in> set tbl" "conflicts r arg" by blast
  have "map conflict_key (map (\<lambda>x. if x = r then conflict_update now arg r else x) tbl)
      = map conflict_key tbl"
    by (induction tbl) auto
  then have "unique_key (map (\<lambda>x. if x = r then conflict_update now arg r else x) tbl)"
    using u unfolding unique_key_def by (simp only:)
  then show ?thesis
    by (simp add: upsert_conflict [OF u r])
next
  case False
  have "conflict_key (inserted_row now new_id arg) \<notin> conflict_key ` set tbl"
    using False by (auto simp: conflicts_def conflict_key_def inserted_row_def)
  then show ?thesis
    using u False by (simp add: upsert_insert unique_key_def)
qed

lemma upsert_unique:
  assumes u: "unique_key tbl"
  shows "unique_key (snd (UpsertRuleInstance failure json now new_id tbl arg))"
proof (cases "upsertRuleInstance json now new_id arg tbl")
  case (Inl e)
  then show ?thesis
    using u by (cases failure) (simp_all add: UpsertRuleInstance_def)
next
  case (Inr res)
  then obtain a where "snd res = snd (upsert_rows now new_id a tbl)"
    by (auto simp: upsertRuleInstance_def split: option.splits)
  then have "unique_key (snd res)"
    using u by (simp add: upsert_rows_unique)
  then show ?thesis
    using u Inr by (cases failure; cases res) (simp_all add: UpsertRuleInstance_def)
qed

text \<open>
  A call that fails, and a statement that fails on a definition or on parameters that
  are not JSON, return the error and no id, and leave the table as it was.
\<close>

lemma UpsertRuleInstance_failure:
  "UpsertRuleInstance (Some e) json now new_id tbl arg = (Inl e, tbl)"
  by (simp add: UpsertRuleInstance_def)

lemma UpsertRuleInstance_not_json:
  "json (ups_Def arg) = None \<or> json (ups_Params arg) = None \<Longrightarrow>
   UpsertRuleInstance None json now new_id tbl arg =
     (Inl (StatementError ''invalid input syntax for type json''), tbl)"
  by (auto simp: UpsertRuleInstance_def upsertRuleInstance_def split: option.splits)

lemma UpsertRuleInstance_not_json_example:
  "UpsertRuleInstance None example_json 50 99 [rule_A, rule_C] upsert_not_json =
     (Inl (StatementError ''invalid input syntax for type json''), [rule_A, rule_C])"
  by (simp add: UpsertRuleInstance_not_json example_json_def upsert_not_json_def)

lemma UpsertRuleInstance_runs:
  "json (ups_Def arg) = Some d \<Longrightarrow> json (ups_Params arg) = Some p \<Longrightarrow>
   UpsertRuleInstance None json now new_id tbl arg =
     (Inr (fst (upsert_rows now new_id (arg\<lparr>ups_Def := d, ups_Params := p\<rparr>) tbl)),
      snd (upsert_rows now new_id (arg\<lparr>ups_Def := d, ups_Params := p\<rparr>) tbl))"
  by (simp add: UpsertRuleInstance_def upsertRuleInstance_def split: prod.splits)

text \<open>
  C9, amended. On a table whose (profile\_id, entity\_type, name) are unique, as the
  conflict target requires, for a call that does not fail and whose definition and
  parameters are JSON: when a row agrees with the call on the three columns,
  \<open>UpsertRuleInstance\<close> returns that row's id and the table is the old one with
  rule\_type\_id, def and params of that row set from the call and its updated\_at set to
  the time of the statement (no row is added, every other row and every other column is
  as before); when no row agrees, it returns the new id and the table has one more row,
  made of the call's values with created\_at and updated\_at both the time of the
  statement.
\<close>

theorem UpsertRuleInstance_upsert:
  assumes "unique_key tbl"
    and "json (ups_Def arg) = Some d" and "json (ups_Params arg) = Some p"
  shows "(\<forall>r\<in>set tbl.
            ri_profile_id r = ups_ProfileID arg \<and> ri_entity_type r = ups_EntityType arg \<and>
            ri_name r = ups_Name arg \<longrightarrow>
            UpsertRuleInstance None json now new_id tbl arg =
              (Inr (ri_id r),
               map (\<lambda>x. if x = r
                         then x\<lparr>ri_rule_type_id := ups_RuleTypeID arg, ri_def := d,
                                ri_params := p, ri_updated_at := now\<rparr>
                         else x) tbl)) \<and>
         ((\<forall>r\<in>set tbl.
             \<not> (ri_profile_id r = ups_ProfileID arg \<and> ri_entity_type r = ups_EntityType arg \<and>
                ri_name r = ups_Name arg)) \<longrightarrow>
            UpsertRuleInstance None json now new_id tbl arg =
              (Inr new_id,
               tbl @ [\<lparr>ri_id = new_id, ri_profile_id = ups_ProfileID arg,
                       ri_rule_type_id = ups_RuleTypeID arg, ri_name = ups_Name arg,
                       ri_entity_type = ups_EntityType arg, ri_def = d,
                       ri_params = p, ri_created_at = now,
                       ri_updated_at = now\<rparr>]))"
proof (intro conjI ballI impI)
  let ?arg = "arg\<lparr>ups_Def := d, ups_Params := p\<rparr>"
  fix r
  assume r: "r \<in> set tbl"
    and k: "ri_profile_id r = ups_ProfileID arg \<and> ri_entity_type r = ups_EntityType arg \<and>
            ri_name r = ups_Name arg"
  then have c: "conflicts r ?arg"
    by (simp add: conflicts_def conflict_key_def)
  have "(\<lambda>x. if x = r then conflict_update now ?arg r else x) =
        (\<lambda>x. if x = r
              then x\<lparr>ri_rule_type_id := ups_RuleTypeID arg, ri_def := d,
                     ri_params := p, ri_updated_at := now\<rparr>
              else x)"
    by (auto simp: conflict_update_def)
  then show "UpsertRuleInstance None json now new_id tbl arg =
      (Inr (ri_id r),
       map (\<lambda>x. if x = r
                 then x\<lparr>ri_rule_type_id := ups_RuleTypeID arg, ri_def := d,
                        ri_params := p, ri_updated_at := now\<rparr>
                 else x) tbl)"
    using upsert_conflict [OF assms(1) r c, of now new_id]
    by (simp add: UpsertRuleInstance_runs [OF assms(2,3)])
next
  let ?arg = "arg\<lparr>ups_Def := d, ups_Params := p\<rparr>"
  assume "\<forall>r\<in>set tbl.
     \<not> (ri_profile_id r = ups_ProfileID arg \<and> ri_entity_type r = ups_EntityType arg \<and>
        ri_name r = ups_Name arg)"
  then have "\<forall>r\<in>set tbl. \<not> conflicts r ?arg"
    by (simp add: conflicts_def conflict_key_def)
  then show "UpsertRuleInstance None json now new_id tbl arg =
      (Inr new_id,
       tbl @ [\<lparr>ri_id = new_id, ri_profile_id = ups_ProfileID arg,
               ri_rule_type_id = ups_RuleTypeID arg, ri_name = ups_Name arg,
               ri_entity_type = ups_EntityType arg, ri_def = d,
               ri_params = p, ri_created_at = now, ri_updated_at = now\<rparr>])"
    by (simp add: UpsertRuleInstance_runs [OF assms(2,3)] upsert_insert inserted_row_def)
qed

theorem UpsertRuleInstance_upsert_witness:
  "unique_key [rule_A, rule_C, rule_D, rule_E] \<and>
   example_json (ups_Def upsert_A) = Some ''[1]'' \<and>
   example_json (ups_Params upsert_A) = Some ''[2]'' \<and>
   rule_A \<in> set [rule_A, rule_C, rule_D, rule_E] \<and>
   ri_profile_id rule_A = ups_ProfileID upsert_A \<and>
   ri_entity_type rule_A = ups_EntityType upsert_A \<and>
   ri_name rule_A = ups_Name upsert_A \<and>
   UpsertRuleInstance None example_json 50 99 [rule_A, rule_C, rule_D, rule_E] upsert_A =
     (Inr 10,
      [rule_A\<lparr>ri_rule_type_id := 200, ri_def := ''[1]'', ri_params := ''[2]'',
              ri_updated_at := 50\<rparr>, rule_C, rule_D, rule_E]) \<and>
   example_json (ups_Def upsert_B) = Some ''[1]'' \<and>
   example_json (ups_Params upsert_B) = Some ''{}'' \<and>
   (ups_ProfileID upsert_B, ups_EntityType upsert_B, ups_Name upsert_B)
     \<notin> set (map conflict_key [rule_A, rule_C, rule_D, rule_E]) \<and>
   UpsertRuleInstance None example_json 20 11 [rule_A, rule_C, rule_D, rule_E] upsert_B =
     (Inr 11, [rule_A, rule_C, rule_D, rule_E, rule_B])"
proof -
  have k: "(ups_ProfileID upsert_B, ups_EntityType upsert_B, ups_Name upsert_B)
     \<notin> set (map conflict_key [rule_A, rule_C, rule_D, rule_E])"
    by (simp add: conflict_key_def upsert_B_def rules_defs)
  have u: "unique_key [rule_A, rule_C, rule_D, rule_E]"
    by (simp add: unique_key_def conflict_key_def rules_defs)
  have ja: "example_json (ups_Def upsert_A) = Some ''[1]''"
      "example_json (ups_Params upsert_A) = Some ''[2]''"
    by (simp_all add: example_json_def upsert_A_def)
  have jb: "example_json (ups_Def upsert_B) = Some ''[1]''"
      "example_json (ups_Params upsert_B) = Some ''{}''"
    by (simp_all add: example_json_def upsert_B_def)
  have a: "UpsertRuleInstance None example_json 50 99 [rule_A, rule_C, rule_D, rule_E] upsert_A =
     (Inr 10,
      [rule_A\<lparr>ri_rule_type_id := 200, ri_def := ''[1]'', ri_params := ''[2]'',
              ri_updated_at := 50\<rparr>, rule_C, rule_D, rule_E])"
    using UpsertRuleInstance_upsert [OF u ja, of 50 99]
    by (simp add: upsert_A_def rules_defs)
  have b: "UpsertRuleInstance None example_json 20 11 [rule_A, rule_C, rule_D, rule_E] upsert_B =
     (Inr 11, [rule_A, rule_C, rule_D, rule_E, rule_B])"
    using UpsertRuleInstance_upsert [OF u jb, of 20 11]
    by (simp add: upsert_B_def rules_defs)
  show ?thesis
    using u a b k ja jb by (simp add: upsert_A_def rule_A_def)
qed

text \<open>
  C9 as stated fails for a call that fails. The upsert of \<open>A\<close> agrees with the row \<open>A\<close> on
  the three columns, but on a context that is cancelled the method returns the error,
  not the id of \<open>A\<close>, and \<open>A\<close> is as it was.
\<close>

theorem UpsertRuleInstance_cancelled_counterexample:
  "rule_A \<in> set [rule_A, rule_C] \<and>
   ri_profile_id rule_A = ups_ProfileID upsert_A \<and>
   ri_entity_type rule_A = ups_EntityType upsert_A \<and>
   ri_name rule_A = ups_Name upsert_A \<and>
   UpsertRuleInstance cancelled example_json 50 99 [rule_A, rule_C] upsert_A =
     (Inl (StatementError ''context canceled''), [rule_A, rule_C])"
  by (simp add: UpsertRuleInstance_failure cancelled_def upsert_A_def rule_A_def)

section \<open>The authorization interceptor: a miss is denied\<close>

text \<open>The five cases of \<^verbatim>\<open>TestProjectAuthorizationInterceptor\<close>, by what the test expects.\<close>

lemma TestProjectAuthorizationInterceptor:
  "fst (ProjectAuthorizationInterceptor (test_context TARGET_RESOURCE_NONE 0) () unaryHandler)
     = Inr \<lparr>Project_ID = 0, Provider_Name = []\<rparr>"
  "fst (ProjectAuthorizationInterceptor (test_context TARGET_RESOURCE_USER 0) () unaryHandler)
     = Inr \<lparr>Project_ID = 0, Provider_Name = []\<rparr>"
  "fst (ProjectAuthorizationInterceptor (test_context TARGET_RESOURCE_PROJECT 0) () unaryHandler)
     = Inl (UserVisibleError PermissionDenied ''user is not authorized to access this project'')"
  "fst (ProjectAuthorizationInterceptor (test_context TARGET_RESOURCE_PROJECT 1) () unaryHandler)
     = Inl (UserVisibleError PermissionDenied ''user is not authorized to access this project'')"
  "fst (ProjectAuthorizationInterceptor (test_context TARGET_RESOURCE_PROJECT 2) () unaryHandler)
     = Inr \<lparr>Project_ID = 2, Provider_Name = []\<rparr>"
  by (simp_all add: ProjectAuthorizationInterceptor_def test_context_def unaryHandler_def)

text \<open>
  C1. For every project-scoped call whose entity-context project is not a member of the
  caller's permitted project set, the zero project included, the authorization
  interceptor returns the user-visible permission-denied error and does not call the
  handler. The error is one fixed value: it does not depend on the project, so it is
  the same for the zero project and for a project the caller may not act on.
\<close>

theorem ProjectAuthorizationInterceptor_denies:
  "rpcOptions_TargetResource ctx = TARGET_RESOURCE_PROJECT \<Longrightarrow>
   Project_ID (entityContext ctx) \<notin> set (permissions_ProjectIds ctx) \<Longrightarrow>
   ProjectAuthorizationInterceptor ctx req handler =
     (Inl (UserVisibleError PermissionDenied ''user is not authorized to access this project''),
      [])"
  by (simp add: ProjectAuthorizationInterceptor_def)

theorem ProjectAuthorizationInterceptor_denies_witness:
  "rpcOptions_TargetResource (test_context TARGET_RESOURCE_PROJECT 0) = TARGET_RESOURCE_PROJECT \<and>
   Project_ID (entityContext (test_context TARGET_RESOURCE_PROJECT 0))
     \<notin> set (permissions_ProjectIds (test_context TARGET_RESOURCE_PROJECT 0)) \<and>
   rpcOptions_TargetResource (test_context TARGET_RESOURCE_PROJECT 1) = TARGET_RESOURCE_PROJECT \<and>
   Project_ID (entityContext (test_context TARGET_RESOURCE_PROJECT 1))
     \<notin> set (permissions_ProjectIds (test_context TARGET_RESOURCE_PROJECT 1)) \<and>
   ProjectAuthorizationInterceptor (test_context TARGET_RESOURCE_PROJECT 0) () unaryHandler =
     (Inl (UserVisibleError PermissionDenied ''user is not authorized to access this project''),
      []) \<and>
   ProjectAuthorizationInterceptor (test_context TARGET_RESOURCE_PROJECT 1) () unaryHandler =
     ProjectAuthorizationInterceptor (test_context TARGET_RESOURCE_PROJECT 0) () unaryHandler"
proof -
  have z: "rpcOptions_TargetResource (test_context TARGET_RESOURCE_PROJECT 0)
        = TARGET_RESOURCE_PROJECT"
      "Project_ID (entityContext (test_context TARGET_RESOURCE_PROJECT 0))
        \<notin> set (permissions_ProjectIds (test_context TARGET_RESOURCE_PROJECT 0))"
    by (simp_all add: test_context_def)
  have n: "rpcOptions_TargetResource (test_context TARGET_RESOURCE_PROJECT 1)
        = TARGET_RESOURCE_PROJECT"
      "Project_ID (entityContext (test_context TARGET_RESOURCE_PROJECT 1))
        \<notin> set (permissions_ProjectIds (test_context TARGET_RESOURCE_PROJECT 1))"
    by (simp_all add: test_context_def)
  show ?thesis
    using z n ProjectAuthorizationInterceptor_denies [OF z, of "()" unaryHandler]
      ProjectAuthorizationInterceptor_denies [OF n, of "()" unaryHandler]
    by simp
qed

section \<open>The data-source registry builder: a failure gives no registry\<close>

lemmas test_defs = test_parse_def test_decoders_def test_rt_def test_project_def test_ref_def
  test_ds_def test_function_def zero_function_def mock_store_def

text \<open>The eight cases of \<^verbatim>\<open>TestBuildDataSourceRegistry\<close>, by what the test expects.\<close>

lemma TestBuildDataSourceRegistry:
  "BuildDataSourceRegistry test_parse test_decoders
     (mock_store (Inr [1]) (Inr test_ds) (Inr [test_function])) (test_rt test_project [test_ref])
   = Inr [(''test_data_source'', [(''test_function'', ''http://example.com'')])]"
  "BuildDataSourceRegistry test_parse test_decoders
     (mock_store (Inr [1]) (Inr test_ds) (Inr [test_function])) (test_rt ''invalid_uuid'' [test_ref])
   = Inl (InputError ''failed to parse project UUID'')"
  "BuildDataSourceRegistry test_parse test_decoders
     (mock_store (Inr [1]) (Inr test_ds) (Inr [test_function])) (test_rt test_project [None])
   = Inl (InputError ''nil data source reference'')"
  "BuildDataSourceRegistry test_parse test_decoders
     (mock_store (Inr [1]) (Inr test_ds) (Inr [test_function]))
     (test_rt test_project [Some \<lparr>ref_Name = []\<rparr>])
   = Inl (InputError ''empty data source name'')"
  "BuildDataSourceRegistry test_parse test_decoders
     (mock_store (Inl (StatementError ''database error'')) (Inr test_ds) (Inr [test_function]))
     (test_rt test_project [test_ref])
   = Inl (StoreError (StatementError ''database error''))"
  "BuildDataSourceRegistry test_parse test_decoders
     (mock_store (Inr [1]) (Inl (StatementError ''database error'')) (Inr [test_function]))
     (test_rt test_project [test_ref])
   = Inl (StoreError (StatementError ''database error''))"
  "BuildDataSourceRegistry test_parse test_decoders
     (mock_store (Inr [1]) (Inr test_ds) (Inl (StatementError ''database error'')))
     (test_rt test_project [test_ref])
   = Inl (StoreError (StatementError ''database error''))"
  "BuildDataSourceRegistry test_parse test_decoders
     (mock_store (Inr [1]) (Inr test_ds) (Inr [zero_function])) (test_rt test_project [test_ref])
   = Inl (DecodeError ''unsupported driver type'')"
  by (simp_all add: BuildDataSourceRegistry_def instantiateDataSource_def test_defs)

lemma decode_functions_undecodable:
  "f \<in> set fs \<Longrightarrow> \<not> decodable dec f \<Longrightarrow> isl (decode_functions dec fs)"
  by (induction fs) (auto simp: decodable_def split: option.splits sum.splits)

lemma instantiate_bad_reference:
  assumes "bad_reference st dec hierarchy ref"
  shows "isl (instantiateDataSource st dec hierarchy ref)"
proof (cases ref)
  case None
  then show ?thesis by (simp add: instantiateDataSource_def)
next
  case (Some r)
  show ?thesis
  proof (cases "ref_Name r = []")
    case True
    then show ?thesis by (simp add: instantiateDataSource_def Some)
  next
    case name: False
    show ?thesis
    proof (cases "GetDataSourceByName st (ref_Name r) hierarchy")
      case (Inl e)
      then show ?thesis by (simp add: instantiateDataSource_def Some name)
    next
      case (Inr ds)
      show ?thesis
      proof (cases "ListDataSourceFunctions st (ds_ID ds) (ds_ProjectID ds)")
        case (Inl e)
        then show ?thesis by (simp add: instantiateDataSource_def Some name Inr)
      next
        case fs: (Inr fs)
        have all: "list_all (\<lambda>f. \<not> decodable dec f) fs"
          using assms by (simp add: bad_reference_def Some name Inr fs)
        show ?thesis
        proof (cases fs)
          case Nil
          then show ?thesis by (simp add: instantiateDataSource_def Some name Inr fs)
        next
          case (Cons f fs')
          then have "isl (decode_functions dec fs)"
            using all decode_functions_undecodable [of f fs dec] by simp
          then show ?thesis
            by (auto simp: instantiateDataSource_def Some name Inr fs Cons split: sum.splits)
        qed
      qed
    qed
  qed
qed

lemma register_all_fails:
  "ref \<in> set refs \<Longrightarrow> isl (instantiateDataSource st dec hierarchy ref) \<Longrightarrow>
   isl (register_all st dec hierarchy refs reg)"
proof (induction refs arbitrary: reg)
  case Nil
  then show ?case by simp
next
  case (Cons a refs)
  show ?case
  proof (cases "instantiateDataSource st dec hierarchy a")
    case (Inl e)
    then show ?thesis by simp
  next
    case (Inr nf)
    then have "ref \<noteq> a" using Cons.prems(2) by auto
    then have "ref \<in> set refs" using Cons.prems(1) by simp
    then have "\<And>reg'. isl (register_all st dec hierarchy refs reg')"
      using Cons.IH Cons.prems(2) by blast
    then show ?thesis
      using Inr by (cases nf) simp
  qed
qed

text \<open>
  C4. The build returns an error, and with it no registry, whenever the rule type's
  project id does not parse, or the lookup of the parent projects fails, or some declared
  reference is \<^verbatim>\<open>nil\<close>, has an empty name, names a data source whose lookup fails or
  whose functions cannot be listed, or names a data source none of whose functions
  decodes (among them the data source with no function at all).
\<close>

theorem BuildDataSourceRegistry_fails:
  assumes "parse_uuid (Context_Project rt) = None \<or>
     (\<exists>p. parse_uuid (Context_Project rt) = Some p \<and>
        (isl (GetParentProjects st p) \<or>
         (\<exists>hierarchy ref. GetParentProjects st p = Inr hierarchy \<and>
            ref \<in> set (Def_Eval_DataSources rt) \<and>
            (ref = None \<or>
             (\<exists>r. ref = Some r \<and>
                (ref_Name r = [] \<or>
                 isl (GetDataSourceByName st (ref_Name r) hierarchy) \<or>
                 (\<exists>ds. GetDataSourceByName st (ref_Name r) hierarchy = Inr ds \<and>
                    (isl (ListDataSourceFunctions st (ds_ID ds) (ds_ProjectID ds)) \<or>
                     (\<exists>fs. ListDataSourceFunctions st (ds_ID ds) (ds_ProjectID ds) = Inr fs \<and>
                        (\<forall>f\<in>set fs. \<not> decodable dec f))))))))))"
  shows "\<exists>e. BuildDataSourceRegistry parse_uuid dec st rt = Inl e"
proof -
  have "isl (BuildDataSourceRegistry parse_uuid dec st rt)"
  proof (cases "parse_uuid (Context_Project rt)")
    case None
    then show ?thesis by (simp add: BuildDataSourceRegistry_def)
  next
    case (Some p)
    show ?thesis
    proof (cases "GetParentProjects st p")
      case (Inl e)
      then show ?thesis by (simp add: BuildDataSourceRegistry_def Some)
    next
      case (Inr hierarchy)
      from assms Some Inr obtain ref where ref: "ref \<in> set (Def_Eval_DataSources rt)"
        and bad: "ref = None \<or>
             (\<exists>r. ref = Some r \<and>
                (ref_Name r = [] \<or>
                 isl (GetDataSourceByName st (ref_Name r) hierarchy) \<or>
                 (\<exists>ds. GetDataSourceByName st (ref_Name r) hierarchy = Inr ds \<and>
                    (isl (ListDataSourceFunctions st (ds_ID ds) (ds_ProjectID ds)) \<or>
                     (\<exists>fs. ListDataSourceFunctions st (ds_ID ds) (ds_ProjectID ds) = Inr fs \<and>
                        (\<forall>f\<in>set fs. \<not> decodable dec f))))))"
        by auto
      have "bad_reference st dec hierarchy ref"
        using bad by (auto simp: bad_reference_def list_all_iff split: option.splits sum.splits)
      then have "isl (register_all st dec hierarchy (Def_Eval_DataSources rt) [])"
        using ref instantiate_bad_reference register_all_fails by blast
      then show ?thesis by (simp add: BuildDataSourceRegistry_def Some Inr)
    qed
  qed
  then show ?thesis by (cases "BuildDataSourceRegistry parse_uuid dec st rt") auto
qed

theorem BuildDataSourceRegistry_fails_witness:
  "test_parse (Context_Project (test_rt test_project [test_ref])) = Some 1 \<and>
   GetParentProjects (mock_store (Inr [1]) (Inr test_ds) (Inr [zero_function])) 1 = Inr [1] \<and>
   test_ref \<in> set (Def_Eval_DataSources (test_rt test_project [test_ref])) \<and>
   test_ref = Some \<lparr>ref_Name = ''test_data_source''\<rparr> \<and>
   GetDataSourceByName (mock_store (Inr [1]) (Inr test_ds) (Inr [zero_function]))
     ''test_data_source'' [1] = Inr test_ds \<and>
   ListDataSourceFunctions (mock_store (Inr [1]) (Inr test_ds) (Inr [zero_function]))
     (ds_ID test_ds) (ds_ProjectID test_ds) = Inr [zero_function] \<and>
   \<not> decodable test_decoders zero_function \<and>
   (\<exists>e. BuildDataSourceRegistry test_parse test_decoders
           (mock_store (Inr [1]) (Inr test_ds) (Inr [zero_function]))
           (test_rt test_project [test_ref]) = Inl e) \<and>
   ListDataSourceFunctions (mock_store (Inr [1]) (Inr test_ds) (Inr []))
     (ds_ID test_ds) (ds_ProjectID test_ds) = Inr [] \<and>
   (\<exists>e. BuildDataSourceRegistry test_parse test_decoders
           (mock_store (Inr [1]) (Inr test_ds) (Inr []))
           (test_rt test_project [test_ref]) = Inl e)"
proof -
  have h: "test_parse (Context_Project (test_rt test_project [test_ref])) = Some 1"
      "test_ref \<in> set (Def_Eval_DataSources (test_rt test_project [test_ref]))"
      "test_ref = Some \<lparr>ref_Name = ''test_data_source''\<rparr>"
      "\<not> decodable test_decoders zero_function"
    by (simp_all add: test_defs decodable_def)
  have s: "\<And>fs. GetParentProjects (mock_store (Inr [1]) (Inr test_ds) (Inr fs)) 1 = Inr [1]"
      "\<And>fs. GetDataSourceByName (mock_store (Inr [1]) (Inr test_ds) (Inr fs))
         ''test_data_source'' [1] = Inr test_ds"
      "\<And>fs. ListDataSourceFunctions (mock_store (Inr [1]) (Inr test_ds) (Inr fs))
         (ds_ID test_ds) (ds_ProjectID test_ds) = Inr fs"
    by (simp_all add: mock_store_def)
  have a: "\<exists>e. BuildDataSourceRegistry test_parse test_decoders
           (mock_store (Inr [1]) (Inr test_ds) (Inr [zero_function]))
           (test_rt test_project [test_ref]) = Inl e"
    by (rule BuildDataSourceRegistry_fails) (simp add: test_defs decodable_def)
  have b: "\<exists>e. BuildDataSourceRegistry test_parse test_decoders
           (mock_store (Inr [1]) (Inr test_ds) (Inr []))
           (test_rt test_project [test_ref]) = Inl e"
    by (rule BuildDataSourceRegistry_fails) (simp add: test_defs decodable_def)
  show ?thesis
    using h s a b by simp
qed

end
